theory Spec2Isabelle
  imports Main "HOL-Library.Word" "HOL-Library.Monad_Syntax"
begin

unbundle bit_operations_syntax

section \<open>Device memory and the constants the sources take from missing headers\<close>

text \<open>
  The sources are \<^verbatim>\<open>utils.c\<close> and \<^verbatim>\<open>apdu_tx_finalize_prefix.c\<close>. They work on global
  byte arrays (\<^verbatim>\<open>G_io_apdu_buffer\<close>, \<^verbatim>\<open>WORKING_SET\<close>) and call into the transaction module
  and the user interface. The device is a record of these globals; every function takes the
  device and returns the device it leaves behind.

  A C array access outside the array has no defined behaviour. The model gives such an
  access the value \<open>None\<close>: a result \<open>Some d\<close> says that every access of the run was inside
  its array.
\<close>

type_synonym byte = "8 word"
type_synonym uint16_t = "16 word"
type_synonym c_int = "32 word"

text \<open>
  The macros \<^verbatim>\<open>WORKING_SET_SIZE\<close>, \<^verbatim>\<open>ERR_OP_NOT_PERMITTED\<close>, \<^verbatim>\<open>ERR_TRANSACTION_STATE\<close> and
  \<^verbatim>\<open>IO_ASYNCH_REPLY\<close> are defined in headers that are not among the sources. Their values
  are parameters of the model.
\<close>

record macros =
  WORKING_SET_SIZE :: nat
  ERR_OP_NOT_PERMITTED :: uint16_t
  ERR_TRANSACTION_STATE :: uint16_t
  IO_ASYNCH_REPLY :: c_int

text \<open>
  Modelled from the spec: the enumeration behind \<^verbatim>\<open>tx_state()\<close> is declared in
  \<^verbatim>\<open>transaction.h\<close>, which is not among the sources; the code names one value,
  \<^verbatim>\<open>TX_OUTPUTS_RECEIVED\<close>. The values are the states of the Transaction Session of the
  data model (IDLE, INPUTS_RECEIVED, OUTPUTS_RECEIVED, PREFIX_FINALIZED, SIGNING, COMPLETE).
\<close>

datatype tx_state_t =
  TX_IDLE
  | TX_INPUTS_RECEIVED
  | TX_OUTPUTS_RECEIVED
  | TX_PREFIX_FINALIZED
  | TX_SIGNING
  | TX_COMPLETE

text \<open>
  Modelled from the spec: the transaction structure is declared in \<^verbatim>\<open>transaction.h\<close>, which
  is not among the sources. Its fields are those of the Transaction Session of the data model
  (state, txPublicKey, outputs, inputs, prefixHash); the working set of the session is the
  global \<^verbatim>\<open>WORKING_SET\<close> of the device, a field of its own below.
\<close>

record transaction =
  state :: tx_state_t
  tx_public_key :: "byte list"
  inputs :: "byte list list"
  outputs :: "byte list list"
  prefix_hash :: "byte list"

text \<open>
  The user interface is seen through the calls made to it: \<^verbatim>\<open>ui_idle()\<close> and
  \<^verbatim>\<open>ux_flow_init(0, flow, NULL)\<close>. The device keeps them in call order. In the same way it
  keeps what \<^verbatim>\<open>io_exchange\<close> transmitted to the host, one byte list per call.
\<close>

datatype ux_flow = ux_tx_finalize_prefix_flow

datatype ui_call = UI_IDLE | UX_FLOW_INIT ux_flow

record device =
  G_io_apdu_buffer :: "byte list"
  WORKING_SET :: "byte list"
  tx :: transaction
  io_sent :: "byte list list"
  ui_calls :: "ui_call list"

subsection \<open>Array accesses and the library calls\<close>

text \<open>\<^verbatim>\<open>buf[i] = v\<close>.\<close>

definition buf_write :: "byte list \<Rightarrow> nat \<Rightarrow> byte \<Rightarrow> byte list option" where
  "buf_write buf i v = (if i < length buf then Some (buf[i := v]) else None)"

text \<open>\<^verbatim>\<open>os_memmove(dst + off, src, n)\<close>: \<open>n\<close> bytes of \<open>src\<close> go to \<open>dst\<close> from offset \<open>off\<close>.\<close>

definition os_memmove :: "byte list \<Rightarrow> nat \<Rightarrow> byte list \<Rightarrow> nat \<Rightarrow> byte list option" where
  "os_memmove dst off src n =
     (if n \<le> length src \<and> off + n \<le> length dst
      then Some (take off dst @ take n src @ drop (off + n) dst)
      else None)"

text \<open>\<^verbatim>\<open>explicit_bzero(buf, n)\<close>: the first \<open>n\<close> bytes of \<open>buf\<close> become zero.\<close>

definition explicit_bzero :: "byte list \<Rightarrow> nat \<Rightarrow> byte list option" where
  "explicit_bzero buf n =
     (if n \<le> length buf then Some (replicate n 0 @ drop n buf) else None)"

text \<open>
  \<^verbatim>\<open>io_exchange(CHANNEL_APDU | IO_RETURN_AFTER_TX, tx)\<close> transmits the first \<open>tx\<close> bytes of
  \<^verbatim>\<open>G_io_apdu_buffer\<close> and returns.
\<close>

definition io_exchange :: "nat \<Rightarrow> device \<Rightarrow> device option" where
  "io_exchange n d =
     (if n \<le> length (G_io_apdu_buffer d)
      then Some (d\<lparr>io_sent := io_sent d @ [take n (G_io_apdu_buffer d)]\<rparr>)
      else None)"

definition ui_idle :: "device \<Rightarrow> device" where
  "ui_idle d = d\<lparr>ui_calls := ui_calls d @ [UI_IDLE]\<rparr>"

definition ux_flow_init :: "ux_flow \<Rightarrow> device \<Rightarrow> device" where
  "ux_flow_init flow d = d\<lparr>ui_calls := ui_calls d @ [UX_FLOW_INIT flow]\<rparr>"

text \<open>
  Modelled from the spec: \<^verbatim>\<open>tx_state()\<close> is defined in \<^verbatim>\<open>transaction.c\<close>, which is not
  among the sources. It gives the current state of the session, which a handler compares with
  the state it expects before it changes anything; it reads the state and changes nothing.
\<close>

definition tx_state :: "device \<Rightarrow> tx_state_t" where
  "tx_state d = state (tx d)"

section \<open>utils.c\<close>

text \<open>
  \<^verbatim>\<open>readUint16BE\<close>: \<^verbatim>\<open>uint16_t value = (buffer[0] << 8) | (buffer[1])\<close>. Both bytes are
  promoted to \<^verbatim>\<open>int\<close> (32 bits on the device) before the shift, and the result is cut to
  16 bits. No statement inside the \<^verbatim>\<open>TRY\<close> block throws, so the \<^verbatim>\<open>CATCH_OTHER\<close> branch
  (\<^verbatim>\<open>return 0\<close>) is never taken.
\<close>

definition readUint16BE :: "byte list \<Rightarrow> uint16_t option" where
  "readUint16BE buffer =
     (if 2 \<le> length buffer
      then Some (ucast (push_bit 8 (ucast (buffer ! 0) :: c_int) OR (ucast (buffer ! 1) :: c_int)))
      else None)"

text \<open>
  \<^verbatim>\<open>uint16ToChar\<close>: \<^verbatim>\<open>lo = value & 0xFF; hi = value >> 8; r[0] = hi; r[1] = lo\<close>, again
  through \<^verbatim>\<open>int\<close>, each result cut to a byte.
\<close>

definition uint16ToChar :: "byte list \<Rightarrow> uint16_t \<Rightarrow> byte list option" where
  "uint16ToChar r v =
     (let lo = (ucast ((ucast v :: c_int) AND 0xFF) :: byte);
          hi = (ucast (drop_bit 8 (ucast v :: c_int)) :: byte)
      in do {
        r1 \<leftarrow> buf_write r 0 hi;
        buf_write r1 1 lo
      })"

text \<open>
  \<^verbatim>\<open>sendResponse(tx, approve)\<close>. \<^verbatim>\<open>size_t tx\<close> is a natural number here: an index that is
  inside \<^verbatim>\<open>G_io_apdu_buffer\<close> is far below the point where \<^verbatim>\<open>tx++\<close> would wrap.
\<close>

definition sendResponse :: "nat \<Rightarrow> bool \<Rightarrow> device \<Rightarrow> device option" where
  "sendResponse n approve d = do {
     b1 \<leftarrow> buf_write (G_io_apdu_buffer d) n (if approve then 0x90 else 0x69);
     b2 \<leftarrow> buf_write b1 (n + 1) (if approve then 0x00 else 0x85);
     d' \<leftarrow> io_exchange (n + 2) (d\<lparr>G_io_apdu_buffer := b2\<rparr>);
     Some (ui_idle d')
   }"

text \<open>
  \<^verbatim>\<open>write_io_fixed\<close> and \<^verbatim>\<open>write_io_hybrid\<close>. The arguments \<^verbatim>\<open>name\<close>, \<^verbatim>\<open>name_size\<close> and
  \<^verbatim>\<open>hexData\<close> only reach \<^verbatim>\<open>PRINTF\<close>, the debug output, which is not part of the device
  modelled; they are left out. The functions return the number of bytes written.
\<close>

definition write_io_fixed :: "byte list \<Rightarrow> nat \<Rightarrow> device \<Rightarrow> (nat \<times> device) option" where
  "write_io_fixed output output_size d = do {
     b \<leftarrow> os_memmove (G_io_apdu_buffer d) 0 output output_size;
     Some (0 + output_size, d\<lparr>G_io_apdu_buffer := b\<rparr>)
   }"

definition write_io_hybrid :: "byte list \<Rightarrow> nat \<Rightarrow> device \<Rightarrow> (nat \<times> device) option" where
  "write_io_hybrid output output_size d = write_io_fixed output output_size d"

text \<open>
  \<^verbatim>\<open>sendError(errCode)\<close>. The local array \<^verbatim>\<open>_errCode[2]\<close> is not initialised in C; both of
  its bytes are written by \<^verbatim>\<open>uint16ToChar\<close> before they are read, so the model starts it at
  zero.
\<close>

definition sendError :: "uint16_t \<Rightarrow> device \<Rightarrow> device option" where
  "sendError errCode d = do {
     e \<leftarrow> uint16ToChar [0, 0] errCode;
     (n, d1) \<leftarrow> write_io_hybrid e 2 d;
     sendResponse n False d1
   }"

text \<open>\<^verbatim>\<open>do_deny()\<close>.\<close>

definition do_deny :: "macros \<Rightarrow> device \<Rightarrow> device option" where
  "do_deny m d = do {
     w \<leftarrow> explicit_bzero (WORKING_SET d) (WORKING_SET_SIZE m);
     sendError (ERR_OP_NOT_PERMITTED m) (d\<lparr>WORKING_SET := w\<rparr>)
   }"

section \<open>apdu_tx_finalize_prefix.c\<close>

text \<open>
  \<^verbatim>\<open>handle_tx_finalize_prefix(flags)\<close>. The value of \<^verbatim>\<open>*flags\<close> goes in and comes out with
  the device. When the state is \<^verbatim>\<open>TX_OUTPUTS_RECEIVED\<close> the handler starts the flow and sets
  \<^verbatim>\<open>IO_ASYNCH_REPLY\<close>; what the flow's step runs later (\<^verbatim>\<open>do_tx_finalize_prefix\<close>) is not
  part of this call.
\<close>

definition handle_tx_finalize_prefix :: "macros \<Rightarrow> c_int \<Rightarrow> device \<Rightarrow> (c_int \<times> device) option" where
  "handle_tx_finalize_prefix m flags d =
     (if tx_state d \<noteq> TX_OUTPUTS_RECEIVED
      then do {
        d' \<leftarrow> sendError (ERR_TRANSACTION_STATE m) d;
        Some (flags, d')
      }
      else Some (flags OR IO_ASYNCH_REPLY m, ux_flow_init ux_tx_finalize_prefix_flow d))"

section \<open>hw_crypto.h\<close>

text \<open>
  \<^verbatim>\<open>hw_crypto.h\<close> declares the cryptographic functions; their bodies are not among the
  sources. The definitions of this section are written from the specification (sections 4.1
  to 4.4 and 7). Keys and points are values of a type \<open>'k\<close>, scalars are integers, and a
  function that can fail returns \<open>Inl\<close> of the error.
\<close>

text \<open>
  Modelled from the spec: the error kinds of section 7. The status codes that the functions
  of \<^verbatim>\<open>hw_crypto.h\<close> return are macros of a header that is not among the sources.
\<close>

datatype error =
  InvalidEncoding
  | InvalidKey
  | InvalidRingIndex
  | TransactionStateError
  | OperationNotPermitted

text \<open>
  Modelled from the spec: Scalar/Point Arithmetic (section 4.1), whose code is not among the
  sources. The group order \<open>L\<close>, the base point \<open>G\<close>, point addition, scalar multiplication,
  point validation (\<^verbatim>\<open>hw_check_key\<close>), the scalar-domain hash \<open>H_s\<close>, \<open>hash_to_point\<close>, the
  fixed-width encoding of a point and the variable-length encoding of an output index are
  parameters.
\<close>

record 'k curve =
  group_order :: int
  base_point :: 'k
  point_add :: "'k \<Rightarrow> 'k \<Rightarrow> 'k"
  scalar_mult :: "int \<Rightarrow> 'k \<Rightarrow> 'k"
  hw_check_key :: "'k \<Rightarrow> bool"
  hash_to_scalar :: "byte list \<Rightarrow> int"
  hash_to_point :: "'k \<Rightarrow> 'k"
  encode_point :: "'k \<Rightarrow> byte list"
  encode_varint :: "nat \<Rightarrow> byte list"

text \<open>
  Modelled from the spec: what the theorems below need of the arithmetic of section 4.1.
  The order \<open>L\<close> is positive; the base point is a valid point; \<open>hash_to_point\<close> and scalar
  multiplication yield valid points; on valid points, scalar multiplication distributes
  over the addition of scalars and composes by multiplication of scalars; the base point
  and the points that \<open>hash_to_point\<close> yields have an order that divides \<open>L\<close>, so that their
  multiples depend on the scalar modulo \<open>L\<close> only.
\<close>

definition curve_laws :: "'k curve \<Rightarrow> bool" where
  "curve_laws C \<longleftrightarrow>
     0 < group_order C
     \<and> hw_check_key C (base_point C)
     \<and> (\<forall>P. hw_check_key C P \<longrightarrow> hw_check_key C (hash_to_point C P))
     \<and> (\<forall>a P. hw_check_key C P \<longrightarrow> hw_check_key C (scalar_mult C a P))
     \<and> (\<forall>a b P. hw_check_key C P \<longrightarrow>
           scalar_mult C (a + b) P = point_add C (scalar_mult C a P) (scalar_mult C b P))
     \<and> (\<forall>a b P. hw_check_key C P \<longrightarrow>
           scalar_mult C (a * b) P = scalar_mult C a (scalar_mult C b P))
     \<and> (\<forall>a. scalar_mult C (a mod group_order C) (base_point C)
             = scalar_mult C a (base_point C))
     \<and> (\<forall>a P. hw_check_key C P \<longrightarrow>
           scalar_mult C (a mod group_order C) (hash_to_point C P)
             = scalar_mult C a (hash_to_point C P))"

text \<open>
  Modelled from the spec: scalar validation (\<^verbatim>\<open>hw_check_scalar\<close>, body missing). A scalar is
  valid when it is reduced modulo the group order.
\<close>

definition hw_check_scalar :: "'k curve \<Rightarrow> int \<Rightarrow> bool" where
  "hw_check_scalar C s \<longleftrightarrow> 0 \<le> s \<and> s < group_order C"

subsection \<open>Key derivation (section 4.2)\<close>

text \<open>
  Modelled from the spec: \<open>H_s(derivation \<parallel> outputIndex)\<close>, the scalar-domain hash of the
  derivation bytes followed by the variable-length encoding of the output index. The bodies
  of \<^verbatim>\<open>hw_derive_public_key\<close> and \<^verbatim>\<open>hw_derive_secret_key\<close>, which use it, are missing.
\<close>

definition derivation_to_scalar :: "'k curve \<Rightarrow> 'k \<Rightarrow> nat \<Rightarrow> int" where
  "derivation_to_scalar C derivation output_index =
     hash_to_scalar C (encode_point C derivation @ encode_varint C output_index)"

text \<open>
  Modelled from the spec: \<^verbatim>\<open>hw_derive_public_key\<close> (body missing),
  \<open>outputKey = publicSpend + H_s(derivation \<parallel> outputIndex)\<cdot>G\<close>.
\<close>

definition hw_derive_public_key :: "'k curve \<Rightarrow> 'k \<Rightarrow> nat \<Rightarrow> 'k \<Rightarrow> 'k" where
  "hw_derive_public_key C derivation output_index publicSpend =
     point_add C publicSpend
       (scalar_mult C (derivation_to_scalar C derivation output_index) (base_point C))"

text \<open>
  Modelled from the spec: \<^verbatim>\<open>hw_derive_secret_key\<close> (body missing),
  \<open>outputPrivateKey = privateSpend + H_s(derivation \<parallel> outputIndex) mod L\<close>.
\<close>

definition hw_derive_secret_key :: "'k curve \<Rightarrow> 'k \<Rightarrow> nat \<Rightarrow> int \<Rightarrow> int" where
  "hw_derive_secret_key C derivation output_index privateSpend =
     (privateSpend + derivation_to_scalar C derivation output_index) mod group_order C"

subsection \<open>Key image (section 4.3)\<close>

text \<open>
  Modelled from the spec: \<^verbatim>\<open>hw__generate_key_image(I, P, x)\<close> (body missing),
  \<open>keyImage = outputPrivateKey \<cdot> hash_to_point(outputPublicKey)\<close>.
\<close>

definition hw__generate_key_image :: "'k curve \<Rightarrow> 'k \<Rightarrow> int \<Rightarrow> 'k" where
  "hw__generate_key_image C P x = scalar_mult C x (hash_to_point C P)"

subsection \<open>Ring signatures (section 4.4)\<close>

text \<open>
  Modelled from the spec: a ring signature is a sequence of (challenge, response) pairs, one
  per ring member. The commitment of a member is computed from its challenge \<open>c\<close>, its
  response \<open>r\<close>, the member \<open>P\<close> and the key image \<open>I\<close>; it is the pair
  \<open>(r\<cdot>G + c\<cdot>P, r\<cdot>hash_to_point(P) + c\<cdot>I)\<close>. The code that computes it is part of the
  missing bodies of the two ring-signature functions.
\<close>

definition commitment :: "'k curve \<Rightarrow> 'k \<Rightarrow> 'k \<Rightarrow> int \<times> int \<Rightarrow> 'k \<times> 'k" where
  "commitment C key_image P cr =
     (point_add C (scalar_mult C (snd cr) (base_point C)) (scalar_mult C (fst cr) P),
      point_add C (scalar_mult C (snd cr) (hash_to_point C P)) (scalar_mult C (fst cr) key_image))"

text \<open>
  Modelled from the spec: \<open>H(prefixHash \<parallel> keyImage \<parallel> commitments)\<close>, the hash that the
  challenges are bound to (part of the missing bodies of the ring-signature functions).
\<close>

definition ring_challenge :: "'k curve \<Rightarrow> byte list \<Rightarrow> 'k \<Rightarrow> ('k \<times> 'k) list \<Rightarrow> int" where
  "ring_challenge C tx_prefix_hash key_image commitments =
     hash_to_scalar C
       (tx_prefix_hash @ encode_point C key_image
         @ concat (map (\<lambda>LR. encode_point C (fst LR) @ encode_point C (snd LR)) commitments))"

text \<open>
  Modelled from the spec: the pair of a ring member that is not the signer (part of the
  missing body of \<^verbatim>\<open>hw__generate_ring_signatures\<close>). Its response is drawn at random: \<open>rnd i\<close>
  is the draw for position \<open>i\<close>. Its challenge is derived by hashing the prefix hash, the
  key image and the partial commitment, taken to be the part of the commitment that the
  response alone gives, \<open>(r\<cdot>G, r\<cdot>hash_to_point(P))\<close>.
\<close>

definition decoy :: "'k curve \<Rightarrow> (nat \<Rightarrow> int) \<Rightarrow> byte list \<Rightarrow> 'k \<Rightarrow> 'k \<Rightarrow> nat \<Rightarrow> int \<times> int" where
  "decoy C rnd tx_prefix_hash key_image P i =
     (let r = rnd i mod group_order C;
          partial = (scalar_mult C r (base_point C), scalar_mult C r (hash_to_point C P));
          c = ring_challenge C tx_prefix_hash key_image [partial] mod group_order C
      in (c, r))"

text \<open>
  Modelled from the spec: \<^verbatim>\<open>hw__generate_ring_signatures\<close> (body missing), the operation
  \<open>generate(prefixHash, keyImage, ring, realIndex, onetimePrivateKey)\<close>. It fails with
  \<open>InvalidRingIndex\<close> if the real index is not below the ring length, and with \<open>InvalidKey\<close>
  if a ring member fails point validation. The specification gives no order for the two
  checks; the index is checked first here, and nothing proved below depends on that order.
  Otherwise the signer's commitment is
  \<open>(k\<cdot>G, k\<cdot>hash_to_point(P))\<close> for the draw \<open>k\<close> at the real index, the signer's challenge
  makes the sum of all challenges equal to the hash of all commitments modulo \<open>L\<close>, and the
  signer's response is \<open>k - c\<cdot>x mod L\<close>.
\<close>

definition hw__generate_ring_signatures ::
  "'k curve \<Rightarrow> (nat \<Rightarrow> int) \<Rightarrow> byte list \<Rightarrow> 'k \<Rightarrow> 'k list \<Rightarrow> int \<Rightarrow> nat
     \<Rightarrow> error + (int \<times> int) list" where
  "hw__generate_ring_signatures C rnd tx_prefix_hash key_image public_keys private_ephemeral
       real_output_index =
     (if length public_keys \<le> real_output_index then Inl InvalidRingIndex
      else if \<not> list_all (hw_check_key C) public_keys then Inl InvalidKey
      else
        let n = length public_keys;
            decoys = map (\<lambda>i. decoy C rnd tx_prefix_hash key_image (public_keys ! i) i) [0..<n];
            k = rnd real_output_index mod group_order C;
            P = public_keys ! real_output_index;
            commitments =
              map (\<lambda>i. if i = real_output_index
                        then (scalar_mult C k (base_point C), scalar_mult C k (hash_to_point C P))
                        else commitment C key_image (public_keys ! i) (decoys ! i)) [0..<n];
            h = ring_challenge C tx_prefix_hash key_image commitments;
            c = (h - sum_list (map (\<lambda>i. if i = real_output_index then 0 else fst (decoys ! i))
                                 [0..<n]))
                  mod group_order C;
            r = (k - c * private_ephemeral) mod group_order C
        in Inr (map (\<lambda>i. if i = real_output_index then (c, r) else decoys ! i) [0..<n]))"

text \<open>
  Modelled from the spec: \<^verbatim>\<open>hw_check_ring_signatures\<close> (body missing), the operation
  \<open>verify(prefixHash, keyImage, ring, signature)\<close>. A malformed input (an empty ring, a
  signature whose length is not the ring's, a key image or ring member that fails point
  validation, a challenge or response that is not a valid scalar) gives \<open>False\<close>. Otherwise
  every member's commitment is recomputed and the sum of the challenges is compared with
  the hash of the commitments modulo \<open>L\<close>.
\<close>

definition hw_check_ring_signatures ::
  "'k curve \<Rightarrow> byte list \<Rightarrow> 'k \<Rightarrow> 'k list \<Rightarrow> (int \<times> int) list \<Rightarrow> bool" where
  "hw_check_ring_signatures C tx_prefix_hash key_image public_keys signatures =
     (if public_keys = [] \<or> length signatures \<noteq> length public_keys
         \<or> \<not> hw_check_key C key_image
         \<or> \<not> list_all (hw_check_key C) public_keys
         \<or> \<not> list_all (\<lambda>cr. hw_check_scalar C (fst cr) \<and> hw_check_scalar C (snd cr)) signatures
      then False
      else
        let commitments = map (\<lambda>(P, cr). commitment C key_image P cr) (zip public_keys signatures);
            h = ring_challenge C tx_prefix_hash key_image commitments
        in sum_list (map fst signatures) mod group_order C = h mod group_order C)"

section \<open>Inputs for the examples\<close>

text \<open>
  The values of the macros below are chosen for the examples; the theorems hold for every
  value. The example device has an APDU buffer of eight bytes, a working set of four bytes
  that are not zero, and a transaction in the given state.
\<close>

definition example_macros :: macros where
  "example_macros =
     \<lparr>WORKING_SET_SIZE = 4, ERR_OP_NOT_PERMITTED = 0x4001, ERR_TRANSACTION_STATE = 0x4002,
      IO_ASYNCH_REPLY = 0x10\<rparr>"

definition example_device :: "tx_state_t \<Rightarrow> device" where
  "example_device st =
     \<lparr>G_io_apdu_buffer = [1, 2, 3, 4, 5, 6, 7, 8],
      WORKING_SET = [0xDE, 0xAD, 0xBE, 0xEF],
      tx = \<lparr>state = st, tx_public_key = [7], inputs = [[1]], outputs = [[2]], prefix_hash = [9]\<rparr>,
      io_sent = [],
      ui_calls = []\<rparr>"

text \<open>
  A small instance of the curve parameters for the examples: the integers modulo 13 under
  addition, with base point 1. Points outside \<open>0..12\<close> fail validation.
\<close>

definition toy_curve :: "int curve" where
  "toy_curve =
     \<lparr>group_order = 13, base_point = 1,
      point_add = (\<lambda>P Q. (P + Q) mod 13),
      scalar_mult = (\<lambda>a P. (a * P) mod 13),
      hw_check_key = (\<lambda>P. 0 \<le> P \<and> P < 13),
      hash_to_scalar = (\<lambda>bs. int (sum_list (map unat bs)) mod 13),
      hash_to_point = (\<lambda>P. (2 * P + 1) mod 13),
      encode_point = (\<lambda>P. [word_of_int P]),
      encode_varint = (\<lambda>n. [word_of_nat n])\<rparr>"

definition example_rnd :: "nat \<Rightarrow> int" where
  "example_rnd i = int i + 2"

section \<open>Properties of utils.c\<close>

subsection \<open>The two bytes of a 16-bit value\<close>

lemma low_byte_cut:
  "(ucast ((ucast (v :: uint16_t) :: c_int) AND 0xFF) :: byte) = ucast v"
proof -
  have m: "(0xFF :: c_int) = mask 8"
    by (simp add: mask_eq_exp_minus_1)
  show ?thesis
    unfolding m by (rule bit_word_eqI) (auto simp add: bit_simps)
qed

lemma high_byte_cut:
  "(ucast (drop_bit 8 (ucast (v :: uint16_t) :: c_int)) :: byte) = ucast (drop_bit 8 v)"
  by (rule bit_word_eqI) (auto simp add: bit_simps)

lemma uint16ToChar_bytes:
  "uint16ToChar [a, b] v = Some [ucast (drop_bit 8 v), ucast v]"
  by (simp add: uint16ToChar_def buf_write_def low_byte_cut high_byte_cut)

lemma readUint16BE_bytes:
  "readUint16BE [ucast (drop_bit 8 v), ucast v] = Some (v :: uint16_t)"
proof -
  have "(ucast (push_bit 8 (ucast (ucast (drop_bit 8 v) :: byte) :: c_int)
           OR (ucast (ucast v :: byte) :: c_int)) :: uint16_t) = v"
    by (rule bit_word_eqI) (auto simp add: bit_simps)
  then show ?thesis
    by (simp add: readUint16BE_def)
qed

text \<open>
  C9. Writing a 16-bit value into a two-byte buffer with \<open>uint16ToChar\<close> (high byte first,
  then low byte) and reading the buffer back with \<open>readUint16BE\<close> gives the value again,
  whatever the buffer held before.
\<close>

theorem readUint16BE_uint16ToChar:
  "(uint16ToChar [a, b] v \<bind> readUint16BE) = Some v"
  by (simp add: uint16ToChar_bytes readUint16BE_bytes)

subsection \<open>Responses\<close>

lemma sendResponse_eq:
  assumes "n + 2 \<le> length (G_io_apdu_buffer d)"
  shows "sendResponse n approve d =
    Some (d\<lparr>G_io_apdu_buffer :=
               (G_io_apdu_buffer d)[n := (if approve then 0x90 else 0x69),
                                    n + 1 := (if approve then 0x00 else 0x85)],
             io_sent := io_sent d @
               [take n (G_io_apdu_buffer d) @ (if approve then [0x90, 0x00] else [0x69, 0x85])],
             ui_calls := ui_calls d @ [UI_IDLE]\<rparr>)"
  using assms
  by (simp add: sendResponse_def buf_write_def io_exchange_def ui_idle_def
      take_Suc_conv_app_nth numeral_2_eq_2)

lemma write_io_hybrid_eq:
  assumes "n \<le> length out" and "n \<le> length (G_io_apdu_buffer d)"
  shows "write_io_hybrid out n d =
    Some (n, d\<lparr>G_io_apdu_buffer := take n out @ drop n (G_io_apdu_buffer d)\<rparr>)"
  using assms by (simp add: write_io_hybrid_def write_io_fixed_def os_memmove_def)

lemma four_bytes:
  assumes "4 \<le> length (xs :: 'a list)"
  obtains x0 x1 x2 x3 rest where "xs = x0 # x1 # x2 # x3 # rest"
  using assms by (auto simp add: numeral_eq_Suc Suc_le_length_iff)

lemma sendError_eq:
  assumes "4 \<le> length (G_io_apdu_buffer d)"
  shows "sendError e d =
    Some (d\<lparr>G_io_apdu_buffer :=
               [ucast (drop_bit 8 e), ucast e, 0x69, 0x85] @ drop 4 (G_io_apdu_buffer d),
             io_sent := io_sent d @ [[ucast (drop_bit 8 e), ucast e, 0x69, 0x85]],
             ui_calls := ui_calls d @ [UI_IDLE]\<rparr>)"
proof -
  obtain x0 x1 x2 x3 rest where buf: "G_io_apdu_buffer d = x0 # x1 # x2 # x3 # rest"
    using assms by (rule four_bytes)
  show ?thesis
    by (simp add: sendError_def uint16ToChar_bytes write_io_hybrid_eq sendResponse_eq buf)
qed

text \<open>
  C8. \<open>sendResponse tx approve\<close> transmits the \<open>tx\<close> payload bytes of the buffer followed
  by exactly two status bytes: \<open>0x90 0x00\<close> when \<open>approve\<close> is true, \<open>0x69 0x85\<close> when it
  is false. The two bytes must fit into \<open>G_io_apdu_buffer\<close>; C defines nothing otherwise.
\<close>

theorem sendResponse_status_bytes:
  assumes "n + 2 \<le> length (G_io_apdu_buffer d)"
  shows "\<exists>d'. sendResponse n approve d = Some d'
      \<and> io_sent d' = io_sent d @
            [take n (G_io_apdu_buffer d) @ (if approve then [0x90, 0x00] else [0x69, 0x85])]"
  using assms by (simp add: sendResponse_eq)

theorem sendResponse_status_bytes_witness:
  "3 + 2 \<le> length (G_io_apdu_buffer (example_device TX_IDLE))
   \<and> (\<exists>d'. sendResponse 3 True (example_device TX_IDLE) = Some d'
        \<and> io_sent d' = [[1, 2, 3, 0x90, 0x00]])
   \<and> (\<exists>d'. sendResponse 3 False (example_device TX_IDLE) = Some d'
        \<and> io_sent d' = [[1, 2, 3, 0x69, 0x85]])"
  using sendResponse_status_bytes [of 3 "example_device TX_IDLE" True]
    sendResponse_status_bytes [of 3 "example_device TX_IDLE" False]
  by (simp add: example_device_def)

subsection \<open>Denying an operation\<close>

lemma explicit_bzero_eq:
  "n \<le> length buf \<Longrightarrow> explicit_bzero buf n = Some (replicate n 0 @ drop n buf)"
  by (simp add: explicit_bzero_def)

text \<open>
  C1, as amended. \<open>do_deny\<close> overwrites the \<open>WORKING_SET_SIZE\<close> bytes of the working set
  with zero and reports the error to the host: the two bytes of \<open>ERR_OP_NOT_PERMITTED\<close>
  followed by the status bytes \<open>0x69 0x85\<close>; then it calls \<open>ui_idle\<close>. The transaction,
  and with it the session state, is left as it was.
\<close>

theorem do_deny_effect:
  assumes "WORKING_SET_SIZE m \<le> length (WORKING_SET d)"
    and "4 \<le> length (G_io_apdu_buffer d)"
  shows "\<exists>d'. do_deny m d = Some d'
      \<and> length (WORKING_SET d') = length (WORKING_SET d)
      \<and> (\<forall>i < WORKING_SET_SIZE m. WORKING_SET d' ! i = 0)
      \<and> io_sent d' = io_sent d @
            [[ucast (drop_bit 8 (ERR_OP_NOT_PERMITTED m)), ucast (ERR_OP_NOT_PERMITTED m),
              0x69, 0x85]]
      \<and> ui_calls d' = ui_calls d @ [UI_IDLE]
      \<and> tx d' = tx d"
  using assms
  by (simp add: do_deny_def explicit_bzero_eq sendError_eq nth_append)

theorem do_deny_effect_witness:
  "WORKING_SET_SIZE example_macros \<le> length (WORKING_SET (example_device TX_SIGNING))
   \<and> 4 \<le> length (G_io_apdu_buffer (example_device TX_SIGNING))
   \<and> (\<exists>d'. do_deny example_macros (example_device TX_SIGNING) = Some d'
        \<and> WORKING_SET d' = [0, 0, 0, 0]
        \<and> io_sent d' = [[0x40, 0x01, 0x69, 0x85]]
        \<and> ui_calls d' = [UI_IDLE]
        \<and> tx d' = tx (example_device TX_SIGNING))"
proof -
  have h1: "WORKING_SET_SIZE example_macros \<le> length (WORKING_SET (example_device TX_SIGNING))"
    by (simp add: example_macros_def example_device_def)
  have h2: "4 \<le> length (G_io_apdu_buffer (example_device TX_SIGNING))"
    by (simp add: example_device_def)
  from do_deny_effect [OF h1 h2] obtain d' where
    r: "do_deny example_macros (example_device TX_SIGNING) = Some d'"
    and len: "length (WORKING_SET d') = length (WORKING_SET (example_device TX_SIGNING))"
    and z: "\<forall>i < WORKING_SET_SIZE example_macros. WORKING_SET d' ! i = 0"
    and s: "io_sent d' = io_sent (example_device TX_SIGNING) @
            [[ucast (drop_bit 8 (ERR_OP_NOT_PERMITTED example_macros)),
              ucast (ERR_OP_NOT_PERMITTED example_macros), 0x69, 0x85]]"
    and u: "ui_calls d' = ui_calls (example_device TX_SIGNING) @ [UI_IDLE]"
    and t: "tx d' = tx (example_device TX_SIGNING)"
    by blast
  have w: "WORKING_SET d' = [0, 0, 0, 0]"
    using len z by (simp add: list_eq_iff_nth_eq example_macros_def example_device_def nth_Cons')
  have s': "io_sent d' = [[0x40, 0x01, 0x69, 0x85]]"
    using s by (simp add: example_macros_def example_device_def)
  have u': "ui_calls d' = [UI_IDLE]"
    using u by (simp add: example_device_def)
  show ?thesis
    using h1 h2 r w s' u' t by blast
qed

text \<open>
  C1 as stated fails: \<open>do_deny\<close> on a device whose transaction is in state
  \<open>TX_OUTPUTS_RECEIVED\<close> leaves it in that state, which is not the idle state.
\<close>

theorem do_deny_state_counterexample:
  "map_option tx_state (do_deny example_macros (example_device TX_OUTPUTS_RECEIVED))
     = Some TX_OUTPUTS_RECEIVED
   \<and> TX_OUTPUTS_RECEIVED \<noteq> TX_IDLE"
  by (simp add: do_deny_def explicit_bzero_def sendError_eq example_macros_def
      example_device_def tx_state_def)

section \<open>Properties of apdu_tx_finalize_prefix.c\<close>

text \<open>
  C2. In every state other than \<open>TX_OUTPUTS_RECEIVED\<close> the handler answers with the error
  \<open>ERR_TRANSACTION_STATE\<close> (its two bytes, then \<open>0x69 0x85\<close>) and changes nothing of the
  session: the state, the transaction public key, the inputs, the outputs and the prefix
  hash are as before, and so is the working set.
\<close>

theorem finalize_prefix_wrong_state_no_mutation:
  assumes "tx_state d \<noteq> TX_OUTPUTS_RECEIVED"
    and "4 \<le> length (G_io_apdu_buffer d)"
  shows "\<exists>f' d'. handle_tx_finalize_prefix m flags d = Some (f', d')
      \<and> io_sent d' = io_sent d @
            [[ucast (drop_bit 8 (ERR_TRANSACTION_STATE m)), ucast (ERR_TRANSACTION_STATE m),
              0x69, 0x85]]
      \<and> state (tx d') = state (tx d)
      \<and> tx_public_key (tx d') = tx_public_key (tx d)
      \<and> inputs (tx d') = inputs (tx d)
      \<and> outputs (tx d') = outputs (tx d)
      \<and> prefix_hash (tx d') = prefix_hash (tx d)
      \<and> WORKING_SET d' = WORKING_SET d"
  using assms
  by (simp add: handle_tx_finalize_prefix_def sendError_eq)

theorem finalize_prefix_wrong_state_no_mutation_witness:
  "tx_state (example_device TX_INPUTS_RECEIVED) \<noteq> TX_OUTPUTS_RECEIVED
   \<and> 4 \<le> length (G_io_apdu_buffer (example_device TX_INPUTS_RECEIVED))
   \<and> (\<exists>f' d'. handle_tx_finalize_prefix example_macros 0 (example_device TX_INPUTS_RECEIVED)
          = Some (f', d')
        \<and> io_sent d' = [[0x40, 0x02, 0x69, 0x85]]
        \<and> state (tx d') = TX_INPUTS_RECEIVED
        \<and> tx_public_key (tx d') = [7]
        \<and> inputs (tx d') = [[1]]
        \<and> outputs (tx d') = [[2]]
        \<and> prefix_hash (tx d') = [9]
        \<and> WORKING_SET d' = [0xDE, 0xAD, 0xBE, 0xEF])"
proof -
  have h1: "tx_state (example_device TX_INPUTS_RECEIVED) \<noteq> TX_OUTPUTS_RECEIVED"
    by (simp add: example_device_def tx_state_def)
  have h2: "4 \<le> length (G_io_apdu_buffer (example_device TX_INPUTS_RECEIVED))"
    by (simp add: example_device_def)
  have b: "[ucast (drop_bit 8 (ERR_TRANSACTION_STATE example_macros)),
            ucast (ERR_TRANSACTION_STATE example_macros), 0x69, 0x85] = [0x40, 0x02, 0x69, 0x85 :: byte]"
    by (simp add: example_macros_def)
  from finalize_prefix_wrong_state_no_mutation [OF h1 h2, of example_macros 0]
  show ?thesis
    unfolding b using h1 h2 by (simp add: example_device_def)
qed

text \<open>
  C10. In every state other than \<open>TX_OUTPUTS_RECEIVED\<close> the handler sends
  \<open>ERR_TRANSACTION_STATE\<close> and returns the flags it was given: \<open>IO_ASYNCH_REPLY\<close> is not
  set. The only call to the user interface is the \<open>ui_idle\<close> of \<open>sendResponse\<close>; no flow
  is started.
\<close>

theorem finalize_prefix_wrong_state_flags_untouched:
  assumes "tx_state d \<noteq> TX_OUTPUTS_RECEIVED"
    and "4 \<le> length (G_io_apdu_buffer d)"
  shows "\<exists>d'. handle_tx_finalize_prefix m flags d = Some (flags, d')
      \<and> io_sent d' = io_sent d @
            [[ucast (drop_bit 8 (ERR_TRANSACTION_STATE m)), ucast (ERR_TRANSACTION_STATE m),
              0x69, 0x85]]
      \<and> ui_calls d' = ui_calls d @ [UI_IDLE]"
  using assms
  by (simp add: handle_tx_finalize_prefix_def sendError_eq)

theorem finalize_prefix_wrong_state_flags_untouched_witness:
  "tx_state (example_device TX_IDLE) \<noteq> TX_OUTPUTS_RECEIVED
   \<and> 4 \<le> length (G_io_apdu_buffer (example_device TX_IDLE))
   \<and> (\<exists>d'. handle_tx_finalize_prefix example_macros 3 (example_device TX_IDLE)
          = Some (3, d')
        \<and> io_sent d' = [[0x40, 0x02, 0x69, 0x85]]
        \<and> ui_calls d' = [UI_IDLE])"
proof -
  have h1: "tx_state (example_device TX_IDLE) \<noteq> TX_OUTPUTS_RECEIVED"
    by (simp add: example_device_def tx_state_def)
  have h2: "4 \<le> length (G_io_apdu_buffer (example_device TX_IDLE))"
    by (simp add: example_device_def)
  have b: "[ucast (drop_bit 8 (ERR_TRANSACTION_STATE example_macros)),
            ucast (ERR_TRANSACTION_STATE example_macros), 0x69, 0x85] = [0x40, 0x02, 0x69, 0x85 :: byte]"
    by (simp add: example_macros_def)
  from finalize_prefix_wrong_state_flags_untouched [OF h1 h2, of example_macros 3]
  show ?thesis
    unfolding b using h1 h2 by (simp add: example_device_def)
qed

section \<open>Properties of the functions of hw_crypto.h\<close>

lemma scalar_mult_add:
  "curve_laws C \<Longrightarrow> hw_check_key C P \<Longrightarrow>
   point_add C (scalar_mult C a P) (scalar_mult C b P) = scalar_mult C (a + b) P"
  by (simp add: curve_laws_def)

lemma scalar_mult_assoc:
  "curve_laws C \<Longrightarrow> hw_check_key C P \<Longrightarrow>
   scalar_mult C a (scalar_mult C b P) = scalar_mult C (a * b) P"
  by (simp add: curve_laws_def)

lemma scalar_mult_mod_base:
  "curve_laws C \<Longrightarrow>
   scalar_mult C (a mod group_order C) (base_point C) = scalar_mult C a (base_point C)"
  by (simp add: curve_laws_def)

lemma scalar_mult_mod_hash:
  "curve_laws C \<Longrightarrow> hw_check_key C P \<Longrightarrow>
   scalar_mult C (a mod group_order C) (hash_to_point C P) = scalar_mult C a (hash_to_point C P)"
  by (simp add: curve_laws_def)

lemma toy_curve_laws: "curve_laws toy_curve"
  unfolding curve_laws_def toy_curve_def
  by (simp add: mod_simps algebra_simps)

subsection \<open>One-time keys\<close>

text \<open>
  C4. For a spend keypair \<open>publicSpend = privateSpend\<cdot>G\<close> and every derivation and output
  index, the derived one-time keys form a keypair:
  \<open>derive_secret_key(derivation, outputIndex, privateSpend)\<cdot>G\<close> is
  \<open>derive_public_key(derivation, outputIndex, publicSpend)\<close>.
\<close>

theorem derived_keys_form_keypair:
  assumes "curve_laws C"
  shows "scalar_mult C (hw_derive_secret_key C derivation output_index privateSpend) (base_point C)
         = hw_derive_public_key C derivation output_index
             (scalar_mult C privateSpend (base_point C))"
proof -
  have G: "hw_check_key C (base_point C)"
    using assms by (simp add: curve_laws_def)
  show ?thesis
    by (simp add: hw_derive_secret_key_def hw_derive_public_key_def
        scalar_mult_mod_base [OF assms] scalar_mult_add [OF assms G])
qed

theorem derived_keys_form_keypair_witness:
  "curve_laws toy_curve
   \<and> scalar_mult toy_curve 5 (base_point toy_curve) = 5
   \<and> hw_derive_secret_key toy_curve 4 2 5 = 11
   \<and> hw_derive_public_key toy_curve 4 2 5 = 11
   \<and> scalar_mult toy_curve 11 (base_point toy_curve) = 11"
  using derived_keys_form_keypair [OF toy_curve_laws, of 4 2 5] toy_curve_laws
  by (simp add: toy_curve_def hw_derive_secret_key_def hw_derive_public_key_def
      derivation_to_scalar_def)

subsection \<open>Ring signatures\<close>

text \<open>The signer's response closes the commitment: \<open>(k - c\<cdot>x)\<cdot>Q + c\<cdot>(x\<cdot>Q) = k\<cdot>Q\<close>.\<close>

lemma closing_response:
  assumes laws: "curve_laws C" and Q: "hw_check_key C Q"
    and ord: "scalar_mult C ((k - c * x) mod group_order C) Q = scalar_mult C (k - c * x) Q"
  shows "point_add C (scalar_mult C ((k - c * x) mod group_order C) Q)
           (scalar_mult C c (scalar_mult C x Q))
         = scalar_mult C k Q"
proof -
  have "point_add C (scalar_mult C ((k - c * x) mod group_order C) Q)
          (scalar_mult C c (scalar_mult C x Q))
        = point_add C (scalar_mult C (k - c * x) Q) (scalar_mult C (c * x) Q)"
    by (simp add: ord scalar_mult_assoc [OF laws Q])
  also have "\<dots> = scalar_mult C (k - c * x + c * x) Q"
    by (rule scalar_mult_add [OF laws Q])
  finally show ?thesis
    by simp
qed

lemma commitment_real:
  assumes laws: "curve_laws C" and P: "hw_check_key C P"
    and pub: "P = scalar_mult C x (base_point C)"
    and img: "key_image = hw__generate_key_image C P x"
  shows "commitment C key_image P (c, (k - c * x) mod group_order C)
         = (scalar_mult C k (base_point C), scalar_mult C k (hash_to_point C P))"
proof -
  have G: "hw_check_key C (base_point C)" and H: "hw_check_key C (hash_to_point C P)"
    using laws P by (simp_all add: curve_laws_def)
  have 1: "point_add C (scalar_mult C ((k - c * x) mod group_order C) (base_point C))
             (scalar_mult C c P)
           = scalar_mult C k (base_point C)"
    unfolding pub by (rule closing_response [OF laws G scalar_mult_mod_base [OF laws]])
  have 2: "point_add C (scalar_mult C ((k - c * x) mod group_order C) (hash_to_point C P))
             (scalar_mult C c key_image)
           = scalar_mult C k (hash_to_point C P)"
    unfolding img hw__generate_key_image_def
    by (rule closing_response [OF laws H scalar_mult_mod_hash [OF laws P]])
  show ?thesis
    by (simp add: commitment_def 1 2)
qed

lemma sum_list_single_out:
  assumes "s < n"
  shows "sum_list (map (\<lambda>i. if i = s then a else f i) [0..<n])
         = (a :: int) + sum_list (map (\<lambda>i. if i = s then 0 else f i) [0..<n])"
proof -
  have "(\<Sum>i = 0..<n. if i = s then a else f i)
        = (\<Sum>i = 0..<n. (if i = s then a else 0) + (if i = s then 0 else f i))"
    by (rule sum.cong) auto
  also have "\<dots> = (\<Sum>i = 0..<n. if i = s then a else 0)
                   + (\<Sum>i = 0..<n. if i = s then 0 else f i)"
    by (rule sum.distrib)
  also have "(\<Sum>i = 0..<n. if i = s then a else 0) = a"
    using assms by simp
  finally show ?thesis
    by (simp add: interv_sum_list_conv_sum_set_nat)
qed

lemma hw_check_scalar_mod: "0 < group_order C \<Longrightarrow> hw_check_scalar C (a mod group_order C)"
  by (simp add: hw_check_scalar_def)

lemma decoy_scalars:
  "0 < group_order C \<Longrightarrow>
   hw_check_scalar C (fst (decoy C rnd h I P i)) \<and> hw_check_scalar C (snd (decoy C rnd h I P i))"
  by (simp add: decoy_def Let_def hw_check_scalar_mod)

lemma ring_signature_closes:
  assumes laws: "curve_laws C"
    and idx: "real_output_index < length public_keys"
    and keys: "list_all (hw_check_key C) public_keys"
    and pub: "public_keys ! real_output_index = scalar_mult C x (base_point C)"
    and img: "key_image = hw__generate_key_image C (public_keys ! real_output_index) x"
  shows "\<exists>signatures.
           hw__generate_ring_signatures C rnd tx_prefix_hash key_image public_keys x
             real_output_index = Inr signatures
         \<and> hw_check_ring_signatures C tx_prefix_hash key_image public_keys signatures"
proof -
  define n where "n = length public_keys"
  define P where "P = public_keys ! real_output_index"
  define decoys where
    "decoys = map (\<lambda>i. decoy C rnd tx_prefix_hash key_image (public_keys ! i) i) [0..<n]"
  define k where "k = rnd real_output_index mod group_order C"
  define commitments where
    "commitments =
       map (\<lambda>i. if i = real_output_index
                 then (scalar_mult C k (base_point C), scalar_mult C k (hash_to_point C P))
                 else commitment C key_image (public_keys ! i) (decoys ! i)) [0..<n]"
  define h where "h = ring_challenge C tx_prefix_hash key_image commitments"
  define others where
    "others = sum_list (map (\<lambda>i. if i = real_output_index then 0 else fst (decoys ! i)) [0..<n])"
  define c where "c = (h - others) mod group_order C"
  define r where "r = (k - c * x) mod group_order C"
  define signatures where
    "signatures = map (\<lambda>i. if i = real_output_index then (c, r) else decoys ! i) [0..<n]"
  have L: "0 < group_order C"
    using laws by (simp add: curve_laws_def)
  have gen: "hw__generate_ring_signatures C rnd tx_prefix_hash key_image public_keys x
               real_output_index = Inr signatures"
    unfolding hw__generate_ring_signatures_def Let_def signatures_def r_def c_def others_def
      h_def commitments_def k_def decoys_def P_def n_def
    using idx keys by simp
  have len: "length signatures = length public_keys"
    by (simp add: signatures_def n_def)
  have valid_P: "hw_check_key C P"
    using keys idx by (simp add: P_def list_all_length)
  have valid_I: "hw_check_key C key_image"
    using laws valid_P
    by (simp add: img hw__generate_key_image_def curve_laws_def P_def [symmetric])
  have scalars:
    "list_all (\<lambda>cr. hw_check_scalar C (fst cr) \<and> hw_check_scalar C (snd cr)) signatures"
    using L
    by (simp add: list_all_length signatures_def decoys_def c_def r_def hw_check_scalar_mod
        decoy_scalars)
  have real: "commitment C key_image P (c, r)
              = (scalar_mult C k (base_point C), scalar_mult C k (hash_to_point C P))"
    unfolding r_def
    by (rule commitment_real [OF laws valid_P]) (simp_all add: P_def pub img)
  have recomputed: "map (\<lambda>(P, cr). commitment C key_image P cr) (zip public_keys signatures)
                    = commitments"
  proof (rule nth_equalityI)
    show "length (map (\<lambda>(P, cr). commitment C key_image P cr) (zip public_keys signatures))
          = length commitments"
      by (simp add: len commitments_def n_def)
  next
    fix i
    assume "i < length (map (\<lambda>(P, cr). commitment C key_image P cr) (zip public_keys signatures))"
    then have i: "i < n"
      by (simp add: len n_def)
    show "map (\<lambda>(P, cr). commitment C key_image P cr) (zip public_keys signatures) ! i
          = commitments ! i"
    proof (cases "i = real_output_index")
      case True
      with i real show ?thesis
        by (simp add: signatures_def commitments_def n_def P_def)
    next
      case False
      with i show ?thesis
        by (simp add: signatures_def commitments_def n_def)
    qed
  qed
  have total: "sum_list (map fst signatures) = c + others"
  proof -
    have "map fst signatures
          = map (\<lambda>i. if i = real_output_index then c else fst (decoys ! i)) [0..<n]"
      unfolding signatures_def by (rule nth_equalityI) auto
    then have "sum_list (map fst signatures)
               = sum_list (map (\<lambda>i. if i = real_output_index then c else fst (decoys ! i)) [0..<n])"
      by simp
    also have "\<dots> = c + others"
      unfolding others_def using idx by (intro sum_list_single_out) (simp add: n_def)
    finally show ?thesis .
  qed
  have "(c + others) mod group_order C = h mod group_order C"
    by (simp add: c_def mod_simps)
  then have "hw_check_ring_signatures C tx_prefix_hash key_image public_keys signatures"
    using idx len valid_I keys scalars
    by (auto simp add: hw_check_ring_signatures_def Let_def recomputed total h_def)
  with gen show ?thesis
    by blast
qed

text \<open>
  C3. For every ring of 1 to 16 valid members, every real index below the ring length and
  every valid one-time private key \<open>x\<close>, that is, a valid scalar whose public key \<open>x\<cdot>G\<close> is
  the ring member at the real index and whose key image is the one signed for, generation
  succeeds and verification of the generated signature over the same prefix hash, key
  image and ring gives true, whatever the random draws are. A ring of length 1 is included.
\<close>

theorem ring_signature_roundtrip:
  assumes "curve_laws C"
    and "1 \<le> length public_keys" and "length public_keys \<le> 16"
    and "real_output_index < length public_keys"
    and "list_all (hw_check_key C) public_keys"
    and "hw_check_scalar C x"
    and "public_keys ! real_output_index = scalar_mult C x (base_point C)"
    and "key_image = hw__generate_key_image C (public_keys ! real_output_index) x"
  shows "\<exists>signatures.
           hw__generate_ring_signatures C rnd tx_prefix_hash key_image public_keys x
             real_output_index = Inr signatures
         \<and> hw_check_ring_signatures C tx_prefix_hash key_image public_keys signatures"
  using assms by (intro ring_signature_closes)

lemma example_ring_signature:
  "hw__generate_ring_signatures toy_curve example_rnd [1, 2] 3 [3, 5, 7] 5 1
     = Inr [(9, 2), (4, 9), (5, 4)]"
  by code_simp

lemma example_ring_signature_single:
  "hw__generate_ring_signatures toy_curve example_rnd [1, 2] 3 [5] 5 0 = Inr [(4, 8)]"
  by code_simp

theorem ring_signature_roundtrip_witness:
  "curve_laws toy_curve
   \<and> 1 \<le> length [3, 5, 7 :: int] \<and> length [3, 5, 7 :: int] \<le> 16 \<and> 1 < length [3, 5, 7 :: int]
   \<and> list_all (hw_check_key toy_curve) [3, 5, 7]
   \<and> hw_check_scalar toy_curve 5
   \<and> [3, 5, 7] ! 1 = scalar_mult toy_curve 5 (base_point toy_curve)
   \<and> 3 = hw__generate_key_image toy_curve ([3, 5, 7] ! 1) 5
   \<and> hw__generate_ring_signatures toy_curve example_rnd [1, 2] 3 [3, 5, 7] 5 1
       = Inr [(9, 2), (4, 9), (5, 4)]
   \<and> hw_check_ring_signatures toy_curve [1, 2] 3 [3, 5, 7] [(9, 2), (4, 9), (5, 4)]
   \<and> hw__generate_ring_signatures toy_curve example_rnd [1, 2] 3 [5] 5 0 = Inr [(4, 8)]
   \<and> hw_check_ring_signatures toy_curve [1, 2] 3 [5] [(4, 8)]"
proof -
  have keys: "list_all (hw_check_key toy_curve) [3, 5, 7]"
    and key: "list_all (hw_check_key toy_curve) [5]"
    and x: "hw_check_scalar toy_curve 5"
    and pub: "[3, 5, 7] ! 1 = scalar_mult toy_curve 5 (base_point toy_curve)"
    and pub1: "[5] ! 0 = scalar_mult toy_curve 5 (base_point toy_curve)"
    and img: "3 = hw__generate_key_image toy_curve ([3, 5, 7] ! 1) 5"
    and img1: "3 = hw__generate_key_image toy_curve ([5] ! 0) 5"
    by (simp_all add: toy_curve_def hw_check_scalar_def hw__generate_key_image_def)
  have len: "1 \<le> length [3, 5, 7 :: int]" "length [3, 5, 7 :: int] \<le> 16"
    "1 < length [3, 5, 7 :: int]"
    and len1: "1 \<le> length [5 :: int]" "length [5 :: int] \<le> 16" "0 < length [5 :: int]"
    by simp_all
  from ring_signature_roundtrip [OF toy_curve_laws len keys x pub img, of example_rnd "[1, 2]"]
  obtain s3 where
    "hw__generate_ring_signatures toy_curve example_rnd [1, 2] 3 [3, 5, 7] 5 1 = Inr s3"
    and v3: "hw_check_ring_signatures toy_curve [1, 2] 3 [3, 5, 7] s3"
    by blast
  then have "s3 = [(9, 2), (4, 9), (5, 4)]"
    unfolding example_ring_signature by simp
  with v3 have three:
    "hw_check_ring_signatures toy_curve [1, 2] 3 [3, 5, 7] [(9, 2), (4, 9), (5, 4)]"
    by simp
  from ring_signature_roundtrip [OF toy_curve_laws len1 key x pub1 img1, of example_rnd "[1, 2]"]
  obtain s1 where
    "hw__generate_ring_signatures toy_curve example_rnd [1, 2] 3 [5] 5 0 = Inr s1"
    and v1: "hw_check_ring_signatures toy_curve [1, 2] 3 [5] s1"
    by blast
  then have "s1 = [(4, 8)]"
    unfolding example_ring_signature_single by simp
  with v1 have one: "hw_check_ring_signatures toy_curve [1, 2] 3 [5] [(4, 8)]"
    by simp
  show ?thesis
    using toy_curve_laws len keys x pub img three one
      example_ring_signature example_ring_signature_single
    by blast
qed

end
